theory Spec2Isabelle
  imports Main "HOL-Library.Sublist"
begin

section \<open>JavaScript strings and arrays\<close>

text \<open>
  Strings are lists of 8-bit characters. \<open>toLowerCase\<close> maps the letters A..Z to a..z
  and leaves every other character alone; \<open>js_includes s p\<close> is \<^verbatim>\<open>s.includes(p)\<close>:
  \<open>p\<close> occurs in \<open>s\<close> as a contiguous run (the empty string occurs everywhere).
\<close>

definition toLowerCase_char :: "char \<Rightarrow> char" where
  "toLowerCase_char c =
     (case map_of (zip ''ABCDEFGHIJKLMNOPQRSTUVWXYZ'' ''abcdefghijklmnopqrstuvwxyz'') c of
        Some l \<Rightarrow> l | None \<Rightarrow> c)"

definition toLowerCase :: "string \<Rightarrow> string" where
  "toLowerCase s = map toLowerCase_char s"

definition toUpperCase_char :: "char \<Rightarrow> char" where
  "toUpperCase_char c =
     (case map_of (zip ''abcdefghijklmnopqrstuvwxyz'' ''ABCDEFGHIJKLMNOPQRSTUVWXYZ'') c of
        Some u \<Rightarrow> u | None \<Rightarrow> c)"

definition toUpperCase :: "string \<Rightarrow> string" where
  "toUpperCase s = map toUpperCase_char s"

fun js_includes :: "string \<Rightarrow> string \<Rightarrow> bool" where
  "js_includes [] p = (p = [])"
| "js_includes (c # s) p = (prefix p (c # s) \<or> js_includes s p)"

text \<open>
  \<^verbatim>\<open>xs[i]\<close> is \<^verbatim>\<open>undefined\<close> out of range, and \<^verbatim>\<open>a || b\<close> on numbers is \<open>b\<close>
  when \<open>a\<close> is \<^verbatim>\<open>undefined\<close> or \<open>0\<close> (both are falsy).
\<close>

definition js_index :: "'a list \<Rightarrow> nat \<Rightarrow> 'a option" where
  "js_index xs i = (if i < length xs then Some (xs ! i) else None)"

definition js_or :: "int option \<Rightarrow> int \<Rightarrow> int" where
  "js_or a b = (case a of None \<Rightarrow> b | Some v \<Rightarrow> if v = 0 then b else v)"


section \<open>communication-service/utils.ts: retry scheduling\<close>

text \<open>
  The two fields of \<^verbatim>\<open>CommunicationMessage\<close> that the retry functions read, and
  \<^verbatim>\<open>RetryLogic\<close>. Delays are whole seconds and the multiplier a whole number, as in the
  service's \<^verbatim>\<open>defaultRetryLogic\<close> (\<^verbatim>\<open>[60, 300, 900]\<close>, 2, 3600).
\<close>

record CommunicationMessage =
  retryCount :: nat
  maxRetries :: nat

record RetryLogic =
  logicMaxRetries :: nat
  retryDelays :: "int list"
  backoffMultiplier :: int
  maxDelaySeconds :: int
  retryableErrors :: "string list"

text \<open>
  The \<^verbatim>\<open>delay\<close> constant of \<^verbatim>\<open>calculateNextRetry\<close>:
  \<^verbatim>\<open>retryDelays[retryCount] || Math.min((retryDelays[0] || 60) * Math.pow(backoffMultiplier, retryCount), maxDelaySeconds)\<close>.
\<close>

definition retryDelay :: "CommunicationMessage \<Rightarrow> RetryLogic \<Rightarrow> int" where
  "retryDelay message retryLogic =
     js_or (js_index (retryDelays retryLogic) (retryCount message))
       (min (js_or (js_index (retryDelays retryLogic) 0) 60
               * backoffMultiplier retryLogic ^ retryCount message)
            (maxDelaySeconds retryLogic))"

text \<open>
  \<open>calculateNextRetry now message retryLogic\<close>: \<open>None\<close> is \<^verbatim>\<open>null\<close>; otherwise the
  clock reading \<open>now\<close> (milliseconds) moved on by \<open>delay\<close> seconds.
\<close>

definition calculateNextRetry :: "int \<Rightarrow> CommunicationMessage \<Rightarrow> RetryLogic \<Rightarrow> int option" where
  "calculateNextRetry now message retryLogic =
     (if retryCount message \<ge> logicMaxRetries retryLogic then None
      else Some (now + retryDelay message retryLogic * 1000))"

text \<open>The first delay of the computed branch: \<^verbatim>\<open>retryDelays[0] || 60\<close>.\<close>

definition firstDelay :: "RetryLogic \<Rightarrow> int" where
  "firstDelay retryLogic =
     (case retryDelays retryLogic of [] \<Rightarrow> 60 | d # _ \<Rightarrow> if d = 0 then 60 else d)"

definition defaultRetryLogic :: RetryLogic where
  "defaultRetryLogic =
     \<lparr>logicMaxRetries = 3, retryDelays = [60, 300, 900], backoffMultiplier = 2,
      maxDelaySeconds = 3600, retryableErrors = [''timeout'', ''rate_limit'', ''temporary'']\<rparr>"


section \<open>communication-service/utils.ts: error classification\<close>

datatype error_type = Temporary | Permanent | Rate_limit | Compliance | Unknown

record ErrorClassification =
  etype :: error_type
  retryable :: bool
  emessage :: string

text \<open>
  \<open>classifyError errorMessage\<close>, on the text the source computes first
  (\<^verbatim>\<open>error?.message || String(error)\<close>).
\<close>

definition classifyError :: "string \<Rightarrow> ErrorClassification" where
  "classifyError errorMessage =
     (let lowerError = toLowerCase errorMessage in
      if js_includes lowerError ''rate limit'' \<or> js_includes lowerError ''too many requests''
      then \<lparr>etype = Rate_limit, retryable = True, emessage = errorMessage\<rparr>
      else if js_includes lowerError ''invalid recipient'' \<or> js_includes lowerError ''blocked''
              \<or> js_includes lowerError ''unsubscribed'' \<or> js_includes lowerError ''compliance''
      then \<lparr>etype = (if js_includes lowerError ''compliance'' then Compliance else Permanent),
            retryable = False, emessage = errorMessage\<rparr>
      else if js_includes lowerError ''timeout'' \<or> js_includes lowerError ''network''
              \<or> js_includes lowerError ''temporary''
      then \<lparr>etype = Temporary, retryable = True, emessage = errorMessage\<rparr>
      else \<lparr>etype = Unknown, retryable = True, emessage = errorMessage\<rparr>)"

text \<open>
  \<open>shouldRetry message error\<close>; \<open>None\<close> is a call without the optional \<^verbatim>\<open>error\<close>
  (an empty string is falsy as well).
\<close>

definition nonRetryableErrors :: "string list" where
  "nonRetryableErrors =
     [''permanent_failure'', ''invalid_recipient'', ''compliance_violation'', ''blocked'']"

definition shouldRetry :: "CommunicationMessage \<Rightarrow> string option \<Rightarrow> bool" where
  "shouldRetry message error =
     (if retryCount message \<ge> maxRetries message then False
      else (case error of
              None \<Rightarrow> True
            | Some e \<Rightarrow>
                if e \<noteq> [] \<and> list_ex (\<lambda>pattern. js_includes (toLowerCase e) pattern) nonRetryableErrors
                then False else True))"


text \<open>The nine phrases that \<open>classifyError\<close> looks for.\<close>

definition classifierPhrases :: "string list" where
  "classifierPhrases =
     [''rate limit'', ''too many requests'', ''invalid recipient'', ''blocked'', ''unsubscribed'',
      ''compliance'', ''timeout'', ''network'', ''temporary'']"


section \<open>Dates\<close>

text \<open>
  A \<^verbatim>\<open>Date\<close> is its time value, the milliseconds since the epoch, and an ISO timestamp
  string is the time value it parses to. Local time is UTC: the service passes \<^verbatim>\<open>'UTC'\<close>
  and never converts (\<^verbatim>\<open>isWithinAllowedHours\<close> says so in a comment). A day has
  86400000 milliseconds, an hour 3600000, and the epoch began a Thursday (day 4).
  Two dates have the same \<^verbatim>\<open>toDateString()\<close> exactly when they fall on the same
  calendar day, so the day number stands for that string.
\<close>

definition getHours :: "int \<Rightarrow> int" where
  "getHours d = (d mod 86400000) div 3600000"

definition toDateString :: "int \<Rightarrow> int" where
  "toDateString d = d div 86400000"

definition getDay :: "int \<Rightarrow> int" where
  "getDay d = (d div 86400000 + 4) mod 7"

text \<open>\<open>setDate_plus d k\<close> is \<^verbatim>\<open>d.setDate(d.getDate() + k)\<close>; \<open>setHours d h\<close> is \<^verbatim>\<open>d.setHours(h, 0, 0, 0)\<close>.\<close>

definition setDate_plus :: "int \<Rightarrow> int \<Rightarrow> int" where
  "setDate_plus d k = d + k * 86400000"

definition setHours :: "int \<Rightarrow> int \<Rightarrow> int" where
  "setHours d h = (d div 86400000) * 86400000 + h * 3600000"

text \<open>\<^verbatim>\<open>getWeekStart\<close>: back to Sunday, keeping the time of day.\<close>

definition getWeekStart :: "int \<Rightarrow> int" where
  "getWeekStart date = setDate_plus date (- getDay date)"


section \<open>Compliance service, interfaces: the data model\<close>

datatype channel = Email | Sms | Phone

datatype strategy = Reminder | Negotiation | Final_notice

definition channelName :: "channel \<Rightarrow> string" where
  "channelName c = (case c of Email \<Rightarrow> ''email'' | Sms \<Rightarrow> ''sms'' | Phone \<Rightarrow> ''phone'')"

text \<open>
  A template string is the list of its pieces: literal text \<open>T\<close>, an interpolated
  number \<open>N\<close>, a list of strings joined with a comma \<open>J\<close>, a number of hours given in
  milliseconds (\<open>Hrs\<close>; \<open>Hrs1\<close> after \<^verbatim>\<open>toFixed(1)\<close>), and an ISO timestamp \<open>Iso\<close>.
\<close>

datatype frag = T string | N int | J "string list" | Hrs int | Hrs1 int | Iso int

type_synonym template = "frag list"

datatype violation_type =
  TCPA_TIME_RESTRICTION | FDCPA_DISCLOSURE_MISSING | FDCPA_HARASSMENT
  | TCPA_CONSENT_MISSING | CONTENT_PROHIBITED

datatype warning_type = FREQUENCY_LIMIT | CONTENT_RISK | TIME_BOUNDARY | CONSENT_EXPIRING

datatype severity = High | Medium | Low

definition violationTypeName :: "violation_type \<Rightarrow> string" where
  "violationTypeName t =
     (case t of TCPA_TIME_RESTRICTION \<Rightarrow> ''TCPA_TIME_RESTRICTION''
      | FDCPA_DISCLOSURE_MISSING \<Rightarrow> ''FDCPA_DISCLOSURE_MISSING''
      | FDCPA_HARASSMENT \<Rightarrow> ''FDCPA_HARASSMENT''
      | TCPA_CONSENT_MISSING \<Rightarrow> ''TCPA_CONSENT_MISSING''
      | CONTENT_PROHIBITED \<Rightarrow> ''CONTENT_PROHIBITED'')"

definition warningTypeName :: "warning_type \<Rightarrow> string" where
  "warningTypeName t =
     (case t of FREQUENCY_LIMIT \<Rightarrow> ''FREQUENCY_LIMIT'' | CONTENT_RISK \<Rightarrow> ''CONTENT_RISK''
      | TIME_BOUNDARY \<Rightarrow> ''TIME_BOUNDARY'' | CONSENT_EXPIRING \<Rightarrow> ''CONSENT_EXPIRING'')"

record ComplianceCheckRequest =
  customerId :: string
  communicationId :: string
  content :: string
  channel :: channel
  strategy :: strategy
  customerTimezone :: "string option"

record ComplianceViolation =
  vtype :: violation_type
  severity :: severity
  description :: template
  regulation :: string
  vsection :: "string option"
  suggestedFix :: "template option"

record ComplianceWarning =
  wtype :: warning_type
  wseverity :: severity
  wdescription :: template
  recommendation :: "template option"

datatype audit_result = PASS | FAIL | WARNING

record AuditEntry =
  auditId :: template
  auditTimestamp :: int
  auditCustomerId :: string
  auditCommunicationId :: string
  checkType :: string
  result :: audit_result
  auditViolations :: "template list"
  auditWarnings :: "template list"
  processingTimeMs :: int

record TcpaComplianceRule =
  callingHoursStart :: int
  callingHoursEnd :: int
  maxDailyCalls :: int
  maxWeeklyCalls :: int
  maxDailyTexts :: int
  maxWeeklyTexts :: int
  consentRequired :: bool
  consentExpirationDays :: int
  prohibitedContent :: "string list"

record FdcpaComplianceRule =
  requiredDisclosures :: "string list"
  prohibitedPractices :: "string list"
  maxDailyContacts :: int
  maxWeeklyContacts :: int
  minHoursBetweenCalls :: int
  minDaysBetweenThirdPartyContact :: int
  identityDisclosure :: bool
  purposeDisclosure :: bool
  debtValidationNotice :: bool
  rightsDisclosure :: bool

record ComplianceRuleSet =
  tcpa :: TcpaComplianceRule
  fdcpa :: FdcpaComplianceRule
  lastUpdated :: int
  version :: string

datatype consent_method = Written | Electronic | Verbal

text \<open>
  The optional timestamps \<^verbatim>\<open>expiresAt\<close> and \<^verbatim>\<open>revokedAt\<close> are \<open>None\<close> when unset
  (the code tests them for truthiness).
\<close>

record ConsentRecord =
  consentId :: string
  consentType :: channel
  granted :: bool
  consentTimestamp :: int
  consentMethod :: consent_method
  ipAddress :: "string option"
  userAgent :: "string option"
  expiresAt :: "int option"
  revokedAt :: "int option"

record CommunicationComplianceRecord =
  recordId :: string
  timestamp :: int
  recordChannel :: channel
  recordStrategy :: strategy
  compliant :: bool
  recordViolations :: "violation_type list"
  recordWarnings :: "warning_type list"
  recordProcessingTimeMs :: int

datatype contact_frequency = LowFrequency | MediumFrequency | HighFrequency

record CustomerComplianceProfile =
  profileCustomerId :: string
  preferredChannel :: "channel option"
  contactFrequency :: contact_frequency
  consentHistory :: "ConsentRecord list"
  communicationHistory :: "CommunicationComplianceRecord list"
  violationHistory :: "ComplianceViolation list"
  riskScore :: int

text \<open>What each check returns: \<^verbatim>\<open>{ violations, warnings }\<close>.\<close>

record Findings =
  violations :: "ComplianceViolation list"
  warnings :: "ComplianceWarning list"

record ComplianceCheckResult = Findings +
  resultCompliant :: bool
  auditEntry :: AuditEntry
  recommendedActions :: "template list"
  canProceed :: bool
  nextAllowedTime :: "int option"

text \<open>
  What one evaluation reads from its surroundings. An evaluation is short against the
  calendar: every \<^verbatim>\<open>new Date()\<close> and \<^verbatim>\<open>Date.now()\<close> in it that is used as a date sees
  the instant \<open>wallClock\<close>; the two stopwatch readings \<^verbatim>\<open>Date.now() - startTime\<close> (for the
  audit entry and for the communication record) and the token that
  \<^verbatim>\<open>Math.random().toString(36).substr(2, 9)\<close> draws are inputs of their own.
\<close>

record Clock =
  wallClock :: int
  randomToken :: string
  auditElapsedMs :: int
  recordElapsedMs :: int


section \<open>Compliance service, utils: content checks\<close>

definition containsProhibitedContent :: "string \<Rightarrow> string list \<Rightarrow> bool" where
  "containsProhibitedContent content' prohibitedTerms =
     list_ex (\<lambda>term. js_includes (toLowerCase content') (toLowerCase term)) prohibitedTerms"

text \<open>\<open>validateRequiredDisclosures\<close> returns the pair \<open>(present, missing)\<close>.\<close>

definition validateRequiredDisclosures :: "string \<Rightarrow> string list \<Rightarrow> string list \<times> string list" where
  "validateRequiredDisclosures content' disclosures =
     (filter (\<lambda>disclosure. js_includes (toLowerCase content') (toLowerCase disclosure)) disclosures,
      filter (\<lambda>disclosure. \<not> js_includes (toLowerCase content') (toLowerCase disclosure)) disclosures)"

text \<open>The section sign of \<^verbatim>\<open>'47 U.S.C. ... 227'\<close> is the character 0xA7.\<close>

definition usc227 :: string where
  "usc227 = ''47 U.S.C. '' @ [CHR 0xA7] @ '' 227''"

definition cfr64_1200 :: string where
  "cfr64_1200 = ''47 C.F.R. '' @ [CHR 0xA7] @ '' 64.1200''"

definition usc1692 :: "string \<Rightarrow> string" where
  "usc1692 letter = ''15 U.S.C. '' @ [CHR 0xA7] @ '' 1692'' @ letter"


section \<open>Compliance service, utils: the checks\<close>

text \<open>
  \<^verbatim>\<open>history.filter(c => new Date(c.timestamp).toDateString() === today && c.channel === channel)\<close>
  and its weekly sibling, written once; every function below that filters the history
  this way uses them.
\<close>

definition todayCommsOf :: "int \<Rightarrow> channel \<Rightarrow> CustomerComplianceProfile \<Rightarrow> CommunicationComplianceRecord list" where
  "todayCommsOf now ch customerProfile =
     filter (\<lambda>c. toDateString (timestamp c) = toDateString now \<and> recordChannel c = ch)
       (communicationHistory customerProfile)"

definition weekCommsOf :: "int \<Rightarrow> channel \<Rightarrow> CustomerComplianceProfile \<Rightarrow> CommunicationComplianceRecord list" where
  "weekCommsOf now ch customerProfile =
     filter (\<lambda>c. timestamp c \<ge> getWeekStart now \<and> recordChannel c = ch)
       (communicationHistory customerProfile)"

definition allTodayCommsOf :: "int \<Rightarrow> CustomerComplianceProfile \<Rightarrow> CommunicationComplianceRecord list" where
  "allTodayCommsOf now customerProfile =
     filter (\<lambda>c. toDateString (timestamp c) = toDateString now)
       (communicationHistory customerProfile)"

text \<open>
  \<^verbatim>\<open>consentHistory.find(c => c.type === request.channel && c.granted && !c.revokedAt)\<close>:
  the first such record of the history.
\<close>

definition findConsent :: "channel \<Rightarrow> CustomerComplianceProfile \<Rightarrow> ConsentRecord option" where
  "findConsent ch customerProfile =
     find (\<lambda>c. consentType c = ch \<and> granted c \<and> revokedAt c = None)
       (consentHistory customerProfile)"

definition checkTcpaCompliance ::
  "Clock \<Rightarrow> ComplianceCheckRequest \<Rightarrow> CustomerComplianceProfile \<Rightarrow> TcpaComplianceRule \<Rightarrow> Findings" where
  "checkTcpaCompliance env request customerProfile rules =
     (let now = wallClock env;
          consentViolations =
            (if consentRequired rules then
               (case findConsent (channel request) customerProfile of
                  None \<Rightarrow>
                    [\<lparr>vtype = TCPA_CONSENT_MISSING, severity = High,
                      description = [T ''Missing required consent for '',
                                     T (channelName (channel request)), T '' communication''],
                      regulation = ''TCPA'', vsection = Some usc227,
                      suggestedFix =
                        Some [T ''Obtain explicit consent from customer before communication'']\<rparr>]
                | Some consent \<Rightarrow>
                    (case expiresAt consent of
                       None \<Rightarrow> []
                     | Some e \<Rightarrow>
                         if e < now then
                           [\<lparr>vtype = TCPA_CONSENT_MISSING, severity = High,
                             description = [T ''Consent for '', T (channelName (channel request)),
                                            T '' has expired''],
                             regulation = ''TCPA'', vsection = Some usc227,
                             suggestedFix = Some [T ''Renew consent from customer'']\<rparr>]
                         else []))
             else []);
          currentHour = getHours now;
          hourViolations =
            (if currentHour < callingHoursStart rules \<or> currentHour > callingHoursEnd rules then
               [\<lparr>vtype = TCPA_TIME_RESTRICTION, severity = High,
                 description = [T ''Communication attempted outside allowed hours ('',
                                N (callingHoursStart rules), T '':00 - '',
                                N (callingHoursEnd rules), T '':00)''],
                 regulation = ''TCPA'', vsection = Some cfr64_1200,
                 suggestedFix = Some [T ''Wait until '', N (callingHoursStart rules),
                                      T '':00 to attempt communication'']\<rparr>]
             else []);
          todayComms = todayCommsOf now (channel request) customerProfile;
          weekComms = weekCommsOf now (channel request) customerProfile;
          frequencyViolations =
            (if channel request = Sms \<or> channel request = Phone then
               (let dailyLimit = (if channel request = Sms then maxDailyTexts rules
                                  else maxDailyCalls rules);
                    weeklyLimit = (if channel request = Sms then maxWeeklyTexts rules
                                   else maxWeeklyCalls rules)
                in (if int (length todayComms) \<ge> dailyLimit then
                      [\<lparr>vtype = TCPA_CONSENT_MISSING, severity = Medium,
                        description = [T ''Daily '', T (channelName (channel request)),
                                       T '' limit exceeded ('', N (int (length todayComms)),
                                       T ''/'', N dailyLimit, T '')''],
                        regulation = ''TCPA'', vsection = None,
                        suggestedFix = Some [T ''Wait until tomorrow to send communication'']\<rparr>]
                    else [])
                   @ (if int (length weekComms) \<ge> weeklyLimit then
                        [\<lparr>vtype = TCPA_CONSENT_MISSING, severity = Medium,
                          description = [T ''Weekly '', T (channelName (channel request)),
                                         T '' limit exceeded ('', N (int (length weekComms)),
                                         T ''/'', N weeklyLimit, T '')''],
                          regulation = ''TCPA'', vsection = None,
                          suggestedFix = Some [T ''Wait until next week to send communication'']\<rparr>]
                      else []))
             else []);
          contentViolations =
            (if containsProhibitedContent (content request) (prohibitedContent rules) then
               [\<lparr>vtype = CONTENT_PROHIBITED, severity = High,
                 description = [T ''Communication contains prohibited content''],
                 regulation = ''TCPA'', vsection = Some cfr64_1200,
                 suggestedFix = Some [T ''Remove prohibited content from communication'']\<rparr>]
             else [])
      in \<lparr>violations = consentViolations @ hourViolations @ frequencyViolations @ contentViolations,
          warnings = []\<rparr>)"

text \<open>
  \<^verbatim>\<open>history.filter(c => c.channel === 'phone').sort((a, b) => b.time - a.time)[0]\<close>: the
  phone record with the greatest timestamp, the earliest of them in the history when
  several share it (the sort is stable); \<open>None\<close> when there is no phone record.
\<close>

definition lastCallOf :: "CustomerComplianceProfile \<Rightarrow> CommunicationComplianceRecord option" where
  "lastCallOf customerProfile =
     (case filter (\<lambda>c. recordChannel c = Phone) (communicationHistory customerProfile) of
        [] \<Rightarrow> None
      | c # cs \<Rightarrow> Some (foldl (\<lambda>best x. if timestamp x > timestamp best then x else best) c cs))"

definition prohibitedPatterns :: "string list" where
  "prohibitedPatterns =
     [''threaten violence'', ''arrest without cause'', ''misrepresent amount'', ''false legal action'']"

text \<open>
  \<^verbatim>\<open>hoursSinceLastCall < minHoursBetweenCalls\<close> compares a quotient by 3600000 with a
  whole number of hours; it is written on the milliseconds.
\<close>

definition checkFdcpaCompliance ::
  "Clock \<Rightarrow> ComplianceCheckRequest \<Rightarrow> CustomerComplianceProfile \<Rightarrow> FdcpaComplianceRule \<Rightarrow> Findings" where
  "checkFdcpaCompliance env request customerProfile rules =
     (let now = wallClock env;
          missing = snd (validateRequiredDisclosures (content request) (requiredDisclosures rules));
          disclosureViolations =
            (if length missing > 0 then
               [\<lparr>vtype = FDCPA_DISCLOSURE_MISSING, severity = High,
                 description = [T ''Missing required FDCPA disclosures: '', J missing],
                 regulation = ''FDCPA'', vsection = Some (usc1692 ''e''),
                 suggestedFix = Some [T ''Include required disclosures: '', J missing]\<rparr>]
             else []);
          todayComms = allTodayCommsOf now customerProfile;
          dailyViolations =
            (if int (length todayComms) \<ge> maxDailyContacts rules then
               [\<lparr>vtype = FDCPA_HARASSMENT, severity = High,
                 description = [T ''Daily contact limit exceeded ('', N (int (length todayComms)),
                                T ''/'', N (maxDailyContacts rules), T '')''],
                 regulation = ''FDCPA'', vsection = Some (usc1692 ''d''),
                 suggestedFix = Some [T ''Wait until tomorrow to attempt communication'']\<rparr>]
             else []);
          callViolations =
            (case lastCallOf customerProfile of
               None \<Rightarrow> []
             | Some lastCall \<Rightarrow>
                 if channel request = Phone
                    \<and> now - timestamp lastCall < minHoursBetweenCalls rules * 3600000 then
                   [\<lparr>vtype = FDCPA_HARASSMENT, severity = Medium,
                     description = [T ''Insufficient time between calls ('',
                                    Hrs1 (now - timestamp lastCall), T '' hours, minimum '',
                                    N (minHoursBetweenCalls rules), T '')''],
                     regulation = ''FDCPA'', vsection = Some (usc1692 ''d''),
                     suggestedFix =
                       Some [T ''Wait at least '',
                             Hrs (minHoursBetweenCalls rules * 3600000 - (now - timestamp lastCall)),
                             T '' more hours'']\<rparr>]
                 else []);
          lowerContent = toLowerCase (content request);
          practiceViolations =
            concat (map (\<lambda>practice.
                      if js_includes lowerContent practice then
                        [\<lparr>vtype = FDCPA_HARASSMENT, severity = High,
                          description = [T ''Prohibited practice detected: '', T practice],
                          regulation = ''FDCPA'', vsection = Some (usc1692 ''e''),
                          suggestedFix = Some [T ''Remove prohibited language from communication'']\<rparr>]
                      else [])
                    prohibitedPatterns)
      in \<lparr>violations = disclosureViolations @ dailyViolations @ callViolations @ practiceViolations,
          warnings = []\<rparr>)"

definition riskTerms :: "string list" where
  "riskTerms = [''urgent'', ''immediate action'', ''final notice'', ''legal consequences'']"

definition validateContent :: "string \<Rightarrow> strategy \<Rightarrow> ComplianceRuleSet \<Rightarrow> Findings" where
  "validateContent content' strategy' rules =
     (let prohibitedViolations =
            (if containsProhibitedContent content' (prohibitedContent (tcpa rules)) then
               [\<lparr>vtype = CONTENT_PROHIBITED, severity = High,
                 description = [T ''Content contains prohibited terms''],
                 regulation = ''TCPA'', vsection = Some cfr64_1200,
                 suggestedFix = Some [T ''Remove prohibited terms from content'']\<rparr>]
             else []);
          missing = snd (validateRequiredDisclosures content' (requiredDisclosures (fdcpa rules)));
          disclosureViolations =
            (if length missing > 0 then
               [\<lparr>vtype = FDCPA_DISCLOSURE_MISSING, severity = High,
                 description = [T ''Missing required disclosures: '', J missing],
                 regulation = ''FDCPA'', vsection = Some (usc1692 ''e''),
                 suggestedFix = Some [T ''Add missing required disclosures'']\<rparr>]
             else []);
          foundRisks = filter (\<lambda>term. js_includes (toLowerCase content') term) riskTerms;
          riskWarnings =
            (if length foundRisks > 0 then
               [\<lparr>wtype = CONTENT_RISK, wseverity = Medium,
                 wdescription = [T ''Content contains potentially concerning terms: '', J foundRisks],
                 recommendation =
                   Some [T ''Review content for compliance with harassment regulations'']\<rparr>]
             else [])
      in \<lparr>violations = prohibitedViolations @ disclosureViolations, warnings = riskWarnings\<rparr>)"

definition isWithinAllowedHours :: "int \<Rightarrow> string \<Rightarrow> TcpaComplianceRule \<Rightarrow> bool" where
  "isWithinAllowedHours timestamp' timezone rules =
     (getHours timestamp' \<ge> callingHoursStart rules \<and> getHours timestamp' \<le> callingHoursEnd rules)"


text \<open>
  \<^verbatim>\<open>todayComms.length >= maxDailyTexts * 0.8\<close> is written on whole numbers:
  \<open>5 * length \<ge> 4 * maxDailyTexts\<close>.
\<close>

definition checkFrequencyLimits ::
  "Clock \<Rightarrow> string \<Rightarrow> channel \<Rightarrow> CustomerComplianceProfile \<Rightarrow> ComplianceRuleSet \<Rightarrow> Findings" where
  "checkFrequencyLimits env customerId' channel' customerProfile rules =
     (let now = wallClock env;
          todayComms = todayCommsOf now channel' customerProfile;
          weekComms = weekCommsOf now channel' customerProfile;
          channelViolations =
            (if channel' = Sms then
               (if int (length todayComms) \<ge> maxDailyTexts (tcpa rules) then
                  [\<lparr>vtype = TCPA_CONSENT_MISSING, severity = Medium,
                    description = [T ''Daily SMS limit exceeded ('', N (int (length todayComms)),
                                   T ''/'', N (maxDailyTexts (tcpa rules)), T '')''],
                    regulation = ''TCPA'', vsection = None,
                    suggestedFix = Some [T ''Wait until tomorrow to send SMS'']\<rparr>]
                else [])
               @ (if int (length weekComms) \<ge> maxWeeklyTexts (tcpa rules) then
                    [\<lparr>vtype = TCPA_CONSENT_MISSING, severity = Medium,
                      description = [T ''Weekly SMS limit exceeded ('', N (int (length weekComms)),
                                     T ''/'', N (maxWeeklyTexts (tcpa rules)), T '')''],
                      regulation = ''TCPA'', vsection = None,
                      suggestedFix = Some [T ''Wait until next week to send SMS'']\<rparr>]
                  else [])
             else if channel' = Phone then
               (if int (length todayComms) \<ge> maxDailyCalls (tcpa rules) then
                  [\<lparr>vtype = TCPA_CONSENT_MISSING, severity = Medium,
                    description = [T ''Daily call limit exceeded ('', N (int (length todayComms)),
                                   T ''/'', N (maxDailyCalls (tcpa rules)), T '')''],
                    regulation = ''TCPA'', vsection = None,
                    suggestedFix = Some [T ''Wait until tomorrow to make call'']\<rparr>]
                else [])
               @ (if int (length weekComms) \<ge> maxWeeklyCalls (tcpa rules) then
                    [\<lparr>vtype = TCPA_CONSENT_MISSING, severity = Medium,
                      description = [T ''Weekly call limit exceeded ('', N (int (length weekComms)),
                                     T ''/'', N (maxWeeklyCalls (tcpa rules)), T '')''],
                      regulation = ''TCPA'', vsection = None,
                      suggestedFix = Some [T ''Wait until next week to make call'']\<rparr>]
                  else [])
             else []);
          allTodayComms = allTodayCommsOf now customerProfile;
          contactViolations =
            (if int (length allTodayComms) \<ge> maxDailyContacts (fdcpa rules) then
               [\<lparr>vtype = FDCPA_HARASSMENT, severity = High,
                 description = [T ''Daily contact limit exceeded ('', N (int (length allTodayComms)),
                                T ''/'', N (maxDailyContacts (fdcpa rules)), T '')''],
                 regulation = ''FDCPA'', vsection = Some (usc1692 ''d''),
                 suggestedFix = Some [T ''Wait until tomorrow for any communication'']\<rparr>]
             else []);
          frequencyWarnings =
            (if channel' = Sms \<and> 5 * int (length todayComms) \<ge> 4 * maxDailyTexts (tcpa rules) then
               [\<lparr>wtype = FREQUENCY_LIMIT, wseverity = Medium,
                 wdescription = [T ''Approaching daily SMS limit ('', N (int (length todayComms)),
                                 T ''/'', N (maxDailyTexts (tcpa rules)), T '')''],
                 recommendation = Some [T ''Consider spacing out communications'']\<rparr>]
             else [])
      in \<lparr>violations = channelViolations @ contactViolations, warnings = frequencyWarnings\<rparr>)"

text \<open>
  \<^verbatim>\<open>Math.ceil((expiresAt - now) / 86400000)\<close> is \<open>- ((now - expiresAt) div 86400000)\<close>.
\<close>

definition verifyConsent ::
  "Clock \<Rightarrow> ComplianceCheckRequest \<Rightarrow> CustomerComplianceProfile \<Rightarrow> TcpaComplianceRule \<Rightarrow> Findings" where
  "verifyConsent env request customerProfile rules =
     (let now = wallClock env in
      if \<not> consentRequired rules then \<lparr>violations = [], warnings = []\<rparr>
      else
        (case findConsent (channel request) customerProfile of
           None \<Rightarrow>
             \<lparr>violations =
                [\<lparr>vtype = TCPA_CONSENT_MISSING, severity = High,
                  description = [T ''No valid consent found for '',
                                 T (channelName (channel request)), T '' communication''],
                  regulation = ''TCPA'', vsection = Some usc227,
                  suggestedFix = Some [T ''Obtain explicit consent from customer'']\<rparr>],
              warnings = []\<rparr>
         | Some consent \<Rightarrow>
             if (case expiresAt consent of None \<Rightarrow> False | Some e \<Rightarrow> e < now) then
               \<lparr>violations =
                  [\<lparr>vtype = TCPA_CONSENT_MISSING, severity = High,
                    description = [T ''Consent for '', T (channelName (channel request)),
                                   T '' expired on '', Iso (the (expiresAt consent))],
                    regulation = ''TCPA'', vsection = Some usc227,
                    suggestedFix = Some [T ''Renew consent from customer'']\<rparr>],
                warnings = []\<rparr>
             else
               \<lparr>violations = [],
                warnings =
                  (case expiresAt consent of
                     None \<Rightarrow> []
                   | Some e \<Rightarrow>
                       (let daysUntilExpiry = - ((now - e) div 86400000) in
                        if daysUntilExpiry \<le> 30 then
                          [\<lparr>wtype = CONSENT_EXPIRING, wseverity = Medium,
                            wdescription = [T ''Consent for '', T (channelName (channel request)),
                                            T '' expires in '', N daysUntilExpiry, T '' days''],
                            recommendation =
                              Some [T ''Plan to renew consent before expiration'']\<rparr>]
                        else []))
                  @ (if channel request = Phone \<and> consentMethod consent = Verbal
                        \<and> (ipAddress consent = None \<or> ipAddress consent = Some []) then
                       [\<lparr>wtype = CONSENT_EXPIRING, wseverity = Low,
                         wdescription = [T ''Verbal consent lacks proper documentation''],
                         recommendation =
                           Some [T ''Document verbal consent with additional verification'']\<rparr>]
                     else [])\<rparr>))"

text \<open>
  \<open>createAuditEntry\<close> reads only the violations and the warnings of the result it is
  given (the caller passes \<^verbatim>\<open>auditEntry: {} as any\<close>).
\<close>

definition createAuditEntry ::
  "Clock \<Rightarrow> ComplianceCheckRequest \<Rightarrow> Findings \<Rightarrow> int \<Rightarrow> AuditEntry" where
  "createAuditEntry env request result' processingTimeMs' =
     \<lparr>auditId = [T ''audit_'', N (wallClock env), T ''_'', T (randomToken env)],
      auditTimestamp = wallClock env,
      auditCustomerId = customerId request,
      auditCommunicationId = communicationId request,
      checkType = toUpperCase (channelName (channel request)) @ ''_COMPLIANCE'',
      result = (if length (violations result') > 0 then FAIL
                else if length (warnings result') > 0 then WARNING else PASS),
      auditViolations =
        map (\<lambda>v. [T (violationTypeName (vtype v)), T '': ''] @ description v) (violations result'),
      auditWarnings =
        map (\<lambda>w. [T (warningTypeName (wtype w)), T '': ''] @ wdescription w) (warnings result'),
      processingTimeMs = processingTimeMs'\<rparr>"

definition loadComplianceRules :: "Clock \<Rightarrow> string option \<Rightarrow> ComplianceRuleSet" where
  "loadComplianceRules env version' =
     \<lparr>tcpa =
        \<lparr>callingHoursStart = 8, callingHoursEnd = 21,
         maxDailyCalls = 3, maxWeeklyCalls = 7, maxDailyTexts = 5, maxWeeklyTexts = 14,
         consentRequired = True, consentExpirationDays = 730,
         prohibitedContent = [''threat'', ''harassment'', ''abuse'', ''violence'']\<rparr>,
      fdcpa =
        \<lparr>requiredDisclosures =
           [''This is an attempt to collect a debt'', ''Name of creditor'', ''Amount of debt'',
            ''Right to dispute the debt''],
         prohibitedPractices =
           [''violence'', ''arrest threat'', ''misrepresentation'', ''false legal action''],
         maxDailyContacts = 7, maxWeeklyContacts = 21,
         minHoursBetweenCalls = 2, minDaysBetweenThirdPartyContact = 7,
         identityDisclosure = True, purposeDisclosure = True,
         debtValidationNotice = True, rightsDisclosure = True\<rparr>,
      lastUpdated = wallClock env,
      version = (case version' of None \<Rightarrow> ''1.0.0'' | Some v \<Rightarrow> if v = [] then ''1.0.0'' else v)\<rparr>"

text \<open>The profile lookup of the source: a default profile for every customer.\<close>

definition getCustomerComplianceProfile :: "string \<Rightarrow> CustomerComplianceProfile" where
  "getCustomerComplianceProfile customerId' =
     \<lparr>profileCustomerId = customerId', preferredChannel = None,
      contactFrequency = MediumFrequency, consentHistory = [], communicationHistory = [],
      violationHistory = [], riskScore = 0\<rparr>"

definition getNextAllowedTime ::
  "Clock \<Rightarrow> string \<Rightarrow> channel \<Rightarrow> string \<Rightarrow> CustomerComplianceProfile \<Rightarrow> TcpaComplianceRule \<Rightarrow> int" where
  "getNextAllowedTime env customerId' channel' timezone customerProfile rules =
     (let now = wallClock env;
          currentHour = getHours now;
          afterHours =
            (if currentHour < callingHoursStart rules then setHours now (callingHoursStart rules)
             else if currentHour > callingHoursEnd rules then
               setHours (setDate_plus now 1) (callingHoursStart rules)
             else now);
          todayComms = todayCommsOf now channel' customerProfile;
          dailyLimit = (if channel' = Sms then maxDailyTexts rules else maxDailyCalls rules);
          afterDaily =
            (if int (length todayComms) \<ge> dailyLimit then
               setHours (setDate_plus afterHours 1) (callingHoursStart rules)
             else afterHours);
          thisWeek = getWeekStart now;
          weekComms = weekCommsOf now channel' customerProfile;
          weeklyLimit = (if channel' = Sms then maxWeeklyTexts rules else maxWeeklyCalls rules)
      in if int (length weekComms) \<ge> weeklyLimit then
           setHours (setDate_plus thisWeek 7) (callingHoursStart rules)
         else afterDaily)"

definition generateRecommendedActions ::
  "ComplianceViolation list \<Rightarrow> ComplianceWarning list \<Rightarrow> template list" where
  "generateRecommendedActions violations' warnings' =
     (let actions = List.map_filter suggestedFix violations'
                    @ List.map_filter recommendation warnings'
      in if length actions = 0 \<and> length warnings' > 0
         then actions @ [[T ''Review communication for compliance best practices'']]
         else actions)"


section \<open>Compliance service: one evaluation\<close>

text \<open>
  The body of \<^verbatim>\<open>ComplianceService.checkCompliance\<close> once the rule set and the profile
  are loaded. It returns the result and the communication record that the method hands
  to \<^verbatim>\<open>updateCustomerComplianceProfile\<close> (which only logs it).
\<close>

definition checkComplianceOn ::
  "Clock \<Rightarrow> ComplianceRuleSet \<Rightarrow> CustomerComplianceProfile \<Rightarrow> ComplianceCheckRequest
     \<Rightarrow> ComplianceCheckResult \<times> CommunicationComplianceRecord" where
  "checkComplianceOn env rules customerProfile request =
     (let tcpaResult = checkTcpaCompliance env request customerProfile (tcpa rules);
          fdcpaResult = checkFdcpaCompliance env request customerProfile (fdcpa rules);
          contentResult = validateContent (content request) (strategy request) rules;
          consentResult = verifyConsent env request customerProfile (tcpa rules);
          frequencyResult =
            checkFrequencyLimits env (customerId request) (channel request) customerProfile rules;
          allViolations = violations tcpaResult @ violations fdcpaResult
                          @ violations contentResult @ violations consentResult
                          @ violations frequencyResult;
          allWarnings = warnings tcpaResult @ warnings fdcpaResult
                        @ warnings contentResult @ warnings consentResult
                        @ warnings frequencyResult;
          canProceed' = (length allViolations = 0);
          nextAllowedTime' =
            (if \<not> canProceed' then
               Some (getNextAllowedTime env (customerId request) (channel request)
                       (case customerTimezone request of
                          None \<Rightarrow> ''UTC'' | Some tz \<Rightarrow> if tz = [] then ''UTC'' else tz)
                       customerProfile (tcpa rules))
             else None)
      in (\<lparr>violations = allViolations, warnings = allWarnings,
           resultCompliant = canProceed',
           auditEntry =
             createAuditEntry env request \<lparr>violations = allViolations, warnings = allWarnings\<rparr>
               (auditElapsedMs env),
           recommendedActions = generateRecommendedActions allViolations allWarnings,
           canProceed = canProceed',
           nextAllowedTime = nextAllowedTime'\<rparr>,
          \<lparr>recordId = communicationId request, timestamp = wallClock env,
           recordChannel = channel request, recordStrategy = strategy request,
           compliant = canProceed',
           recordViolations = map vtype allViolations,
           recordWarnings = map wtype allWarnings,
           recordProcessingTimeMs = recordElapsedMs env\<rparr>))"

definition checkCompliance ::
  "Clock \<Rightarrow> ComplianceCheckRequest \<Rightarrow> ComplianceCheckResult \<times> CommunicationComplianceRecord" where
  "checkCompliance env request =
     checkComplianceOn env (loadComplianceRules env None)
       (getCustomerComplianceProfile (customerId request)) request"


section \<open>Example inputs\<close>

text \<open>
  A clock at 10:00 on the first day of the epoch (a Thursday), a request, a history record
  and a consent record, used where a theorem is run on a concrete input.
\<close>

definition exampleClock :: Clock where
  "exampleClock =
     \<lparr>wallClock = 36000000, randomToken = ''k3x9q2m1z'', auditElapsedMs = 2, recordElapsedMs = 3\<rparr>"

definition exampleRequest :: "channel \<Rightarrow> ComplianceCheckRequest" where
  "exampleRequest ch =
     \<lparr>customerId = ''CUST-001'', communicationId = ''COMM-001'', content = ''Payment reminder'',
      channel = ch, strategy = Reminder, customerTimezone = None\<rparr>"

definition exampleRecord :: "channel \<Rightarrow> int \<Rightarrow> CommunicationComplianceRecord" where
  "exampleRecord ch t =
     \<lparr>recordId = ''COMM-000'', timestamp = t, recordChannel = ch, recordStrategy = Reminder,
      compliant = True, recordViolations = [], recordWarnings = [], recordProcessingTimeMs = 1\<rparr>"

definition exampleConsent :: "channel \<Rightarrow> int option \<Rightarrow> ConsentRecord" where
  "exampleConsent ch e =
     \<lparr>consentId = ''CONS-001'', consentType = ch, granted = True, consentTimestamp = 0,
      consentMethod = Electronic, ipAddress = None, userAgent = None, expiresAt = e,
      revokedAt = None\<rparr>"


definition exampleProfile :: "CommunicationComplianceRecord list \<Rightarrow> CustomerComplianceProfile" where
  "exampleProfile history =
     (getCustomerComplianceProfile ''CUST-001'')\<lparr>communicationHistory := history\<rparr>"

definition exampleRules :: ComplianceRuleSet where
  "exampleRules = loadComplianceRules exampleClock None"

text \<open>The loaded rule set with five calls a day instead of three.\<close>

definition fiveCallRules :: ComplianceRuleSet where
  "fiveCallRules = exampleRules\<lparr>tcpa := (tcpa exampleRules)\<lparr>maxDailyCalls := 5\<rparr>\<rparr>"

text \<open>A second run at the same instant that draws another random token.\<close>

definition otherTokenClock :: Clock where
  "otherTokenClock = exampleClock\<lparr>randomToken := ''p7w4d8s0b''\<rparr>"

text \<open>
  A customer whose sms consent of long ago has expired and who has renewed it: the old
  record stays first in the history, the renewed one has no expiry.
\<close>

definition renewedConsentProfile :: CustomerComplianceProfile where
  "renewedConsentProfile =
     (getCustomerComplianceProfile ''CUST-001'')
       \<lparr>consentHistory := [exampleConsent Sms (Some 0), exampleConsent Sms None]\<rparr>"


text \<open>The record of a blocked phone attempt made today.\<close>

definition blockedRecord :: CommunicationComplianceRecord where
  "blockedRecord =
     (exampleRecord Phone 36000002)
       \<lparr>compliant := False, recordViolations := [TCPA_TIME_RESTRICTION]\<rparr>"


text \<open>
  The same day at 22:15, after the calling hours, and a week's worth of seven phone calls
  made since Sunday, none of them today.
\<close>

definition lateClock :: Clock where
  "lateClock = exampleClock\<lparr>wallClock := 80100000\<rparr>"

definition weekOfCalls :: "CommunicationComplianceRecord list" where
  "weekOfCalls =
     map (exampleRecord Phone)
       [-300000000, -250000000, -200000000, -150000000, -100000000, -50000000, -10000000]"


section \<open>Vocabulary of the properties\<close>

text \<open>
  The daily cap of a channel, as \<open>checkTcpaCompliance\<close> and \<open>getNextAllowedTime\<close>
  choose it: \<^verbatim>\<open>channel === 'sms' ? maxDailyTexts : maxDailyCalls\<close>.
\<close>

definition dailyLimitOf :: "TcpaComplianceRule \<Rightarrow> channel \<Rightarrow> int" where
  "dailyLimitOf rules ch = (if ch = Sms then maxDailyTexts rules else maxDailyCalls rules)"

text \<open>
  The violation type \<open>TCPA_CONSENT_MISSING\<close> is shared by the consent checks and the
  per-channel frequency checks, so the two kinds are told apart by their description:
  a daily-frequency violation reads \<open>Daily ... limit exceeded\<close>, a consent-missing one
  \<open>Missing required consent for ...\<close>, \<open>Consent for ... has expired\<close>,
  \<open>No valid consent found for ...\<close> or \<open>Consent for ... expired on ...\<close>.
\<close>

definition dailyFrequencyViolation :: "ComplianceViolation \<Rightarrow> bool" where
  "dailyFrequencyViolation v =
     (vtype v = TCPA_CONSENT_MISSING
      \<and> (case description v of T s # _ \<Rightarrow> prefix ''Daily '' s | _ \<Rightarrow> False))"

definition consentMissingViolation :: "ComplianceViolation \<Rightarrow> bool" where
  "consentMissingViolation v =
     (vtype v = TCPA_CONSENT_MISSING
      \<and> (case description v of
            T s # _ \<Rightarrow> s = ''Missing required consent for '' \<or> s = ''Consent for ''
                        \<or> s = ''No valid consent found for ''
          | _ \<Rightarrow> False))"

definition frequencyLimitWarning :: "ComplianceWarning \<Rightarrow> bool" where
  "frequencyLimitWarning w = (wtype w = FREQUENCY_LIMIT)"

text \<open>
  Valid consent in the words of the specification: a record for the channel with
  \<open>granted\<close> true, \<open>revokedAt\<close> unset, and \<open>expiresAt\<close> unset or in the future.
\<close>

definition validConsent :: "int \<Rightarrow> channel \<Rightarrow> ConsentRecord \<Rightarrow> bool" where
  "validConsent now ch c =
     (consentType c = ch \<and> granted c \<and> revokedAt c = None
      \<and> (case expiresAt c of None \<Rightarrow> True | Some e \<Rightarrow> now < e))"

text \<open>What the frequency filters read of a history record: its timestamp and its channel.\<close>

definition recordKey :: "CommunicationComplianceRecord \<Rightarrow> int \<times> channel" where
  "recordKey c = (timestamp c, recordChannel c)"


section \<open>Retry scheduling: theorems\<close>

lemma js_index_in: "i < length xs \<Longrightarrow> js_index xs i = Some (xs ! i)"
  by (simp add: js_index_def)

lemma js_index_out: "length xs \<le> i \<Longrightarrow> js_index xs i = None"
  by (simp add: js_index_def)

lemma js_or_first_delay: "js_or (js_index (retryDelays rl) 0) 60 = firstDelay rl"
  by (cases "retryDelays rl") (simp_all add: js_or_def js_index_def firstDelay_def)

lemma retryDelay_table:
  assumes "retryCount m < length (retryDelays rl)" and "retryDelays rl ! retryCount m \<noteq> 0"
  shows "retryDelay m rl = retryDelays rl ! retryCount m"
  using assms by (simp add: retryDelay_def js_index_in js_or_def)

lemma retryDelay_computed:
  assumes "length (retryDelays rl) \<le> retryCount m \<or> retryDelays rl ! retryCount m = 0"
  shows "retryDelay m rl =
           min (firstDelay rl * backoffMultiplier rl ^ retryCount m) (maxDelaySeconds rl)"
proof (cases "retryCount m < length (retryDelays rl)")
  case True
  with assms have "retryDelays rl ! retryCount m = 0" by simp
  with True show ?thesis
    by (simp add: retryDelay_def js_index_in js_or_first_delay) (simp add: js_or_def)
next
  case False
  then show ?thesis
    by (simp add: retryDelay_def js_index_out js_or_first_delay) (simp add: js_or_def)
qed

text \<open>
  C7, as stated, fails: a table entry of 0 seconds is inside the table, yet the delay is
  the computed one. With the table \<open>[0, 300, 900]\<close> and \<open>retryCount = 0\<close> the entry at
  the index is 0 and the code waits 60 seconds.
\<close>

theorem calculateNextRetry_zero_entry_counterexample:
  "retryCount \<lparr>retryCount = 0, maxRetries = 3\<rparr>
     < logicMaxRetries (defaultRetryLogic\<lparr>retryDelays := [0, 300, 900]\<rparr>)
   \<and> retryCount \<lparr>retryCount = 0, maxRetries = 3\<rparr>
     < length (retryDelays (defaultRetryLogic\<lparr>retryDelays := [0, 300, 900]\<rparr>))
   \<and> retryDelays (defaultRetryLogic\<lparr>retryDelays := [0, 300, 900]\<rparr>)
        ! retryCount \<lparr>retryCount = 0, maxRetries = 3\<rparr> = 0
   \<and> retryDelay \<lparr>retryCount = 0, maxRetries = 3\<rparr>
        (defaultRetryLogic\<lparr>retryDelays := [0, 300, 900]\<rparr>) = 60
   \<and> calculateNextRetry 0 \<lparr>retryCount = 0, maxRetries = 3\<rparr>
        (defaultRetryLogic\<lparr>retryDelays := [0, 300, 900]\<rparr>) = Some 60000"
  by (simp add: defaultRetryLogic_def calculateNextRetry_def retryDelay_def js_index_def
      js_or_def)

text \<open>
  C7, amended: below the retry limit, the delay is the table entry at index
  \<open>retryCount\<close> when the index is inside the table and the entry is not 0; in every
  other case (index outside the table, or an entry of 0) it is
  \<open>min (firstDelay * backoffMultiplier ^ retryCount) maxDelaySeconds\<close>, where
  \<open>firstDelay\<close> is the first table entry, or 60 when the table is empty or starts
  with 0; at or above the retry limit the scheduler returns null.
\<close>

theorem calculateNextRetry_delay:
  "(retryCount m < logicMaxRetries rl \<and> retryCount m < length (retryDelays rl)
      \<and> retryDelays rl ! retryCount m \<noteq> 0
     \<longrightarrow> calculateNextRetry t m rl = Some (t + retryDelays rl ! retryCount m * 1000))
   \<and> (retryCount m < logicMaxRetries rl
        \<and> (length (retryDelays rl) \<le> retryCount m \<or> retryDelays rl ! retryCount m = 0)
     \<longrightarrow> calculateNextRetry t m rl =
          Some (t + min (firstDelay rl * backoffMultiplier rl ^ retryCount m)
                          (maxDelaySeconds rl) * 1000))
   \<and> (logicMaxRetries rl \<le> retryCount m \<longrightarrow> calculateNextRetry t m rl = None)"
proof (intro conjI impI)
  assume "retryCount m < logicMaxRetries rl \<and> retryCount m < length (retryDelays rl)
      \<and> retryDelays rl ! retryCount m \<noteq> 0"
  then show "calculateNextRetry t m rl = Some (t + retryDelays rl ! retryCount m * 1000)"
    by (simp add: calculateNextRetry_def retryDelay_table)
next
  assume a: "retryCount m < logicMaxRetries rl
        \<and> (length (retryDelays rl) \<le> retryCount m \<or> retryDelays rl ! retryCount m = 0)"
  then have "retryDelay m rl =
      min (firstDelay rl * backoffMultiplier rl ^ retryCount m) (maxDelaySeconds rl)"
    by (intro retryDelay_computed) simp
  with a show "calculateNextRetry t m rl =
          Some (t + min (firstDelay rl * backoffMultiplier rl ^ retryCount m)
                          (maxDelaySeconds rl) * 1000)"
    by (simp add: calculateNextRetry_def)
next
  assume "logicMaxRetries rl \<le> retryCount m"
  then show "calculateNextRetry t m rl = None"
    by (simp add: calculateNextRetry_def)
qed


theorem calculateNextRetry_delay_witness:
  "calculateNextRetry 0 \<lparr>retryCount = 1, maxRetries = 3\<rparr> defaultRetryLogic = Some 300000
   \<and> calculateNextRetry 0 \<lparr>retryCount = 3, maxRetries = 5\<rparr>
        (defaultRetryLogic\<lparr>logicMaxRetries := 5\<rparr>) = Some 480000
   \<and> calculateNextRetry 0 \<lparr>retryCount = 0, maxRetries = 3\<rparr>
        (defaultRetryLogic\<lparr>retryDelays := [0, 300, 900]\<rparr>) = Some 60000
   \<and> calculateNextRetry 0 \<lparr>retryCount = 3, maxRetries = 3\<rparr> defaultRetryLogic = None"
  using calculateNextRetry_delay [of "\<lparr>retryCount = 1, maxRetries = 3\<rparr>" defaultRetryLogic 0]
    calculateNextRetry_delay [of "\<lparr>retryCount = 3, maxRetries = 5\<rparr>"
      "defaultRetryLogic\<lparr>logicMaxRetries := 5\<rparr>" 0]
    calculateNextRetry_delay [of "\<lparr>retryCount = 0, maxRetries = 3\<rparr>"
      "defaultRetryLogic\<lparr>retryDelays := [0, 300, 900]\<rparr>" 0]
    calculateNextRetry_delay [of "\<lparr>retryCount = 3, maxRetries = 3\<rparr>" defaultRetryLogic 0]
  by (simp add: defaultRetryLogic_def firstDelay_def)


section \<open>Error classification: theorems\<close>

lemma js_includes_map: "js_includes s p \<Longrightarrow> js_includes (map f s) (map f p)"
  by (induction s) (auto dest: map_mono_prefix [where f = f])

text \<open>
  The classifier lowers the message before it looks for a phrase, so a message that
  contains a phrase as it is spelled also contains it for the classifier.
\<close>

lemma js_includes_toLowerCase:
  "js_includes e p \<Longrightarrow> js_includes (toLowerCase e) (toLowerCase p)"
  unfolding toLowerCase_def by (rule js_includes_map)

text \<open>
  C8: a classified error is retryable exactly when its type is temporary, rate_limit or
  unknown, and not retryable exactly when its type is permanent or compliance; a message
  in which none of the classifier's phrases occurs gets the type unknown and is
  retryable.
\<close>

theorem classifyError_retryable:
  "(retryable (classifyError e) \<longleftrightarrow> etype (classifyError e) \<in> {Temporary, Rate_limit, Unknown})
   \<and> (\<not> retryable (classifyError e) \<longleftrightarrow> etype (classifyError e) \<in> {Permanent, Compliance})
   \<and> (\<not> list_ex (\<lambda>p. js_includes (toLowerCase e) p) classifierPhrases
        \<longrightarrow> etype (classifyError e) = Unknown \<and> retryable (classifyError e))"
  by (simp add: classifyError_def Let_def classifierPhrases_def)

theorem classifyError_retryable_witness:
  "\<not> list_ex (\<lambda>p. js_includes (toLowerCase ''Something went wrong'') p) classifierPhrases
   \<and> etype (classifyError ''Something went wrong'') = Unknown
   \<and> retryable (classifyError ''Something went wrong'')"
proof -
  have l: "toLowerCase ''Something went wrong'' = ''something went wrong''"
    by (simp add: toLowerCase_def toLowerCase_char_def)
  have h: "\<not> list_ex (\<lambda>p. js_includes (toLowerCase ''Something went wrong'') p) classifierPhrases"
    unfolding l classifierPhrases_def by simp
  with classifyError_retryable [of "''Something went wrong''"] show ?thesis by blast
qed

text \<open>
  C10: the rate-limit phrases are looked for first. A message that contains a rate-limit
  phrase (\<open>rate limit\<close>, \<open>too many requests\<close>) and also a compliance or permanent phrase
  (\<open>compliance\<close>, \<open>blocked\<close>, \<open>invalid recipient\<close>, \<open>unsubscribed\<close>), in any letter
  case, is classified rate_limit and retryable.
\<close>

theorem classifyError_rate_limit_first:
  assumes "js_includes (toLowerCase e) ''rate limit''
           \<or> js_includes (toLowerCase e) ''too many requests''"
    and "js_includes (toLowerCase e) ''compliance'' \<or> js_includes (toLowerCase e) ''blocked''
         \<or> js_includes (toLowerCase e) ''invalid recipient''
         \<or> js_includes (toLowerCase e) ''unsubscribed''"
  shows "etype (classifyError e) = Rate_limit \<and> retryable (classifyError e)"
  using assms(1) by (auto simp add: classifyError_def Let_def)

theorem classifyError_rate_limit_first_witness:
  "js_includes (toLowerCase ''Rate limit hit: recipient blocked by compliance'') ''rate limit''
   \<and> js_includes (toLowerCase ''Rate limit hit: recipient blocked by compliance'') ''compliance''
   \<and> etype (classifyError ''Rate limit hit: recipient blocked by compliance'') = Rate_limit
   \<and> retryable (classifyError ''Rate limit hit: recipient blocked by compliance'')"
proof -
  have l: "toLowerCase ''Rate limit hit: recipient blocked by compliance''
           = ''rate limit hit: recipient blocked by compliance''"
    by (simp add: toLowerCase_def toLowerCase_char_def)
  have h1: "js_includes (toLowerCase ''Rate limit hit: recipient blocked by compliance'') ''rate limit''"
    unfolding l by simp
  have h2: "js_includes (toLowerCase ''Rate limit hit: recipient blocked by compliance'') ''compliance''"
    unfolding l by simp
  from classifyError_rate_limit_first [of "''Rate limit hit: recipient blocked by compliance''"]
    h1 h2 show ?thesis by blast
qed

section \<open>Compliance evaluation: theorems\<close>

lemma violations_checkComplianceOn:
  "violations (fst (checkComplianceOn env rules customerProfile request)) =
     violations (checkTcpaCompliance env request customerProfile (tcpa rules))
     @ violations (checkFdcpaCompliance env request customerProfile (fdcpa rules))
     @ violations (validateContent (content request) (strategy request) rules)
     @ violations (verifyConsent env request customerProfile (tcpa rules))
     @ violations (checkFrequencyLimits env (customerId request) (channel request) customerProfile rules)"
  by (simp add: checkComplianceOn_def Let_def)

lemma warnings_checkComplianceOn:
  "warnings (fst (checkComplianceOn env rules customerProfile request)) =
     warnings (checkTcpaCompliance env request customerProfile (tcpa rules))
     @ warnings (checkFdcpaCompliance env request customerProfile (fdcpa rules))
     @ warnings (validateContent (content request) (strategy request) rules)
     @ warnings (verifyConsent env request customerProfile (tcpa rules))
     @ warnings (checkFrequencyLimits env (customerId request) (channel request) customerProfile rules)"
  by (simp add: checkComplianceOn_def Let_def)

lemma verifyConsent_no_record:
  assumes "consentRequired rules" and "findConsent (channel request) customerProfile = None"
  shows "violations (verifyConsent env request customerProfile rules) \<noteq> []"
  using assms by (simp add: verifyConsent_def)

text \<open>
  C1: in every evaluation, \<open>canProceed\<close> is true exactly when the accumulated violation
  list is empty. Warnings play no part, and any violation blocks.
\<close>

theorem checkCompliance_canProceed:
  "canProceed (fst (checkComplianceOn env rules customerProfile request))
     \<longleftrightarrow> violations (fst (checkComplianceOn env rules customerProfile request)) = []"
  by (simp add: checkComplianceOn_def Let_def)

theorem checkCompliance_canProceed_witness:
  "violations (fst (checkCompliance exampleClock (exampleRequest Sms))) \<noteq> []
   \<and> \<not> canProceed (fst (checkCompliance exampleClock (exampleRequest Sms)))"
proof -
  have "violations (verifyConsent exampleClock (exampleRequest Sms)
          (getCustomerComplianceProfile (customerId (exampleRequest Sms)))
          (tcpa (loadComplianceRules exampleClock None))) \<noteq> []"
    by (rule verifyConsent_no_record)
       (simp_all add: loadComplianceRules_def findConsent_def getCustomerComplianceProfile_def)
  then have "violations (fst (checkCompliance exampleClock (exampleRequest Sms))) \<noteq> []"
    unfolding checkCompliance_def violations_checkComplianceOn by simp
  with checkCompliance_canProceed [of exampleClock "loadComplianceRules exampleClock None"
      "getCustomerComplianceProfile (customerId (exampleRequest Sms))" "exampleRequest Sms"]
  show ?thesis unfolding checkCompliance_def by simp
qed

subsection \<open>The next allowed time\<close>

lemma getDay_range: "0 \<le> getDay d \<and> getDay d \<le> 6"
proof -
  have "0 \<le> (d div 86400000 + 4) mod 7" "(d div 86400000 + 4) mod 7 < 7" by simp_all
  then show ?thesis unfolding getDay_def by linarith
qed

lemma setHours_today:
  assumes "getHours d < h"
  shows "d \<le> setHours d h"
proof -
  define r where "r = d mod 86400000"
  have d: "d = d div 86400000 * 86400000 + r" by (simp add: r_def)
  have "r = r div 3600000 * 3600000 + r mod 3600000" by simp
  moreover have "r mod 3600000 < 3600000" by simp
  moreover have "r div 3600000 + 1 \<le> h" using assms by (simp add: getHours_def r_def)
  then have "(r div 3600000 + 1) * 3600000 \<le> h * 3600000" by simp
  ultimately have "r \<le> h * 3600000" by (simp add: algebra_simps)
  with d show ?thesis unfolding setHours_def by linarith
qed

lemma setHours_later_day:
  assumes "0 \<le> h" and "d + 86400000 \<le> x"
  shows "d \<le> setHours x h"
proof -
  have "(d + 86400000) div 86400000 \<le> x div 86400000"
    using assms(2) by (intro zdiv_mono1) simp_all
  then have "d div 86400000 + 1 \<le> x div 86400000" by simp
  then have "(d div 86400000 + 1) * 86400000 \<le> x div 86400000 * 86400000" by simp
  moreover have "d = d div 86400000 * 86400000 + d mod 86400000" by simp
  moreover have "d mod 86400000 < 86400000" by simp
  ultimately have "d \<le> x div 86400000 * 86400000" by (simp add: algebra_simps)
  moreover have "0 \<le> h * 3600000" using assms(1) by simp
  ultimately show ?thesis unfolding setHours_def by linarith
qed

lemma getNextAllowedTime_not_past:
  assumes "0 \<le> callingHoursStart rules"
  shows "wallClock env \<le> getNextAllowedTime env cid ch tz customerProfile rules"
proof -
  let ?now = "wallClock env"
  let ?s = "callingHoursStart rules"
  define afterHours where "afterHours =
     (if getHours ?now < ?s then setHours ?now ?s
      else if getHours ?now > callingHoursEnd rules then setHours (setDate_plus ?now 1) ?s
      else ?now)"
  have a: "?now \<le> afterHours"
    unfolding afterHours_def
    by (auto intro: setHours_today setHours_later_day [OF assms] simp: setDate_plus_def)
  have b: "?now \<le> setHours (setDate_plus afterHours 1) ?s"
    using a by (intro setHours_later_day [OF assms]) (simp add: setDate_plus_def)
  have "getDay ?now \<le> 6" using getDay_range by simp
  then have c: "?now \<le> setHours (setDate_plus (getWeekStart ?now) 7) ?s"
    by (intro setHours_later_day [OF assms]) (simp add: setDate_plus_def getWeekStart_def)
  show ?thesis
    using a b c unfolding getNextAllowedTime_def Let_def afterHours_def [symmetric]
    by simp
qed

text \<open>
  C6: with a calling window that starts at an hour of the day (not negative), every
  blocked evaluation carries a next allowed time, and it is not before the evaluation's
  clock reading, whichever of the calling-hours, daily-cap and weekly-cap adjustments
  were applied.
\<close>

theorem checkCompliance_nextAllowedTime:
  assumes "0 \<le> callingHoursStart (tcpa rules)"
    and "\<not> canProceed (fst (checkComplianceOn env rules customerProfile request))"
  shows "\<exists>t. nextAllowedTime (fst (checkComplianceOn env rules customerProfile request)) = Some t
             \<and> wallClock env \<le> t"
  using assms(2) getNextAllowedTime_not_past [OF assms(1)]
  by (simp add: checkComplianceOn_def Let_def)


text \<open>
  Two blocked evaluations on which the adjustments apply. At 22:15 with three phone calls
  made today, the calling-hours step moves to 08:00 tomorrow and the daily cap to 08:00
  the day after. At 10:00 on Thursday with seven phone calls since Sunday, the weekly cap
  moves to 08:00 next Sunday.
\<close>

lemma blocked_without_consent:
  assumes "consentRequired (tcpa rules)" and "consentHistory customerProfile = []"
  shows "\<not> canProceed (fst (checkComplianceOn env rules customerProfile request))"
proof -
  have "findConsent (channel request) customerProfile = None"
    using assms(2) by (simp add: findConsent_def)
  from verifyConsent_no_record [OF assms(1) this]
  show ?thesis by (simp add: checkComplianceOn_def Let_def)
qed

lemma nextAllowedTime_blocked:
  assumes "\<not> canProceed (fst (checkComplianceOn env rules customerProfile request))"
  shows "nextAllowedTime (fst (checkComplianceOn env rules customerProfile request))
         = Some (getNextAllowedTime env (customerId request) (channel request)
                  (case customerTimezone request of
                     None \<Rightarrow> ''UTC'' | Some tz \<Rightarrow> if tz = [] then ''UTC'' else tz)
                  customerProfile (tcpa rules))"
  using assms by (simp add: checkComplianceOn_def Let_def)

lemma late_three_calls:
  "getNextAllowedTime lateClock cid Phone tz
     (exampleProfile (map (exampleRecord Phone) [36000000, 36000001, 36000002]))
     (tcpa exampleRules) = 201600000"
  by (simp add: getNextAllowedTime_def Let_def lateClock_def getHours_def setHours_def
      setDate_plus_def getWeekStart_def getDay_def todayCommsOf_def weekCommsOf_def
      exampleProfile_def exampleRecord_def exampleRules_def loadComplianceRules_def
      toDateString_def)

lemma week_of_calls:
  "getNextAllowedTime exampleClock cid Phone tz (exampleProfile weekOfCalls) (tcpa exampleRules)
   = 288000000"
  by (simp add: getNextAllowedTime_def Let_def exampleClock_def getHours_def setHours_def
      setDate_plus_def getWeekStart_def getDay_def todayCommsOf_def weekCommsOf_def
      exampleProfile_def exampleRecord_def exampleRules_def loadComplianceRules_def
      toDateString_def weekOfCalls_def)

theorem checkCompliance_nextAllowedTime_witness:
  "0 \<le> callingHoursStart (tcpa exampleRules)
   \<and> \<not> canProceed (fst (checkComplianceOn lateClock exampleRules
          (exampleProfile (map (exampleRecord Phone) [36000000, 36000001, 36000002]))
          (exampleRequest Phone)))
   \<and> nextAllowedTime (fst (checkComplianceOn lateClock exampleRules
          (exampleProfile (map (exampleRecord Phone) [36000000, 36000001, 36000002]))
          (exampleRequest Phone))) = Some 201600000
   \<and> wallClock lateClock = 80100000
   \<and> (\<exists>t. nextAllowedTime (fst (checkComplianceOn lateClock exampleRules
            (exampleProfile (map (exampleRecord Phone) [36000000, 36000001, 36000002]))
            (exampleRequest Phone))) = Some t
          \<and> wallClock lateClock \<le> t)
   \<and> \<not> canProceed (fst (checkComplianceOn exampleClock exampleRules
          (exampleProfile weekOfCalls) (exampleRequest Phone)))
   \<and> nextAllowedTime (fst (checkComplianceOn exampleClock exampleRules
          (exampleProfile weekOfCalls) (exampleRequest Phone))) = Some 288000000
   \<and> wallClock exampleClock = 36000000
   \<and> (\<exists>t. nextAllowedTime (fst (checkComplianceOn exampleClock exampleRules
            (exampleProfile weekOfCalls) (exampleRequest Phone))) = Some t
          \<and> wallClock exampleClock \<le> t)"
proof -
  have s: "0 \<le> callingHoursStart (tcpa exampleRules)"
    and r: "consentRequired (tcpa exampleRules)"
    by (simp_all add: exampleRules_def loadComplianceRules_def)
  have e: "consentHistory (exampleProfile h) = []" for h
    by (simp add: exampleProfile_def getCustomerComplianceProfile_def)
  have c: "channel (exampleRequest Phone) = Phone" by (simp add: exampleRequest_def)
  have b1: "\<not> canProceed (fst (checkComplianceOn lateClock exampleRules
          (exampleProfile (map (exampleRecord Phone) [36000000, 36000001, 36000002]))
          (exampleRequest Phone)))"
    by (rule blocked_without_consent [OF r e])
  have b2: "\<not> canProceed (fst (checkComplianceOn exampleClock exampleRules
          (exampleProfile weekOfCalls) (exampleRequest Phone)))"
    by (rule blocked_without_consent [OF r e])
  have v1: "nextAllowedTime (fst (checkComplianceOn lateClock exampleRules
          (exampleProfile (map (exampleRecord Phone) [36000000, 36000001, 36000002]))
          (exampleRequest Phone))) = Some 201600000"
    unfolding nextAllowedTime_blocked [OF b1] c late_three_calls ..
  have v2: "nextAllowedTime (fst (checkComplianceOn exampleClock exampleRules
          (exampleProfile weekOfCalls) (exampleRequest Phone))) = Some 288000000"
    unfolding nextAllowedTime_blocked [OF b2] c week_of_calls ..
  have w: "wallClock lateClock = 80100000" "wallClock exampleClock = 36000000"
    by (simp_all add: lateClock_def exampleClock_def)
  from checkCompliance_nextAllowedTime [OF s b1] checkCompliance_nextAllowedTime [OF s b2]
    s b1 b2 v1 v2 w
  show ?thesis by blast
qed

subsection \<open>The daily cap\<close>

lemma tcpa_daily:
  "list_ex dailyFrequencyViolation (violations (checkTcpaCompliance env request customerProfile rules))
   \<longleftrightarrow> (channel request = Sms \<or> channel request = Phone)
       \<and> dailyLimitOf rules (channel request)
           \<le> int (length (todayCommsOf (wallClock env) (channel request) customerProfile))"
  by (simp add: checkTcpaCompliance_def Let_def dailyFrequencyViolation_def dailyLimitOf_def
      split: option.split)

lemma fdcpa_daily:
  "\<not> list_ex dailyFrequencyViolation (violations (checkFdcpaCompliance env request customerProfile rules))"
  by (simp add: checkFdcpaCompliance_def Let_def dailyFrequencyViolation_def prohibitedPatterns_def
      split: option.split)

lemma content_daily:
  "\<not> list_ex dailyFrequencyViolation (violations (validateContent c s rules))"
  by (simp add: validateContent_def Let_def dailyFrequencyViolation_def)

lemma consent_daily:
  "\<not> list_ex dailyFrequencyViolation (violations (verifyConsent env request customerProfile rules))"
  by (simp add: verifyConsent_def Let_def dailyFrequencyViolation_def split: option.split)

lemma frequency_daily:
  "list_ex dailyFrequencyViolation (violations (checkFrequencyLimits env cid ch customerProfile rules))
   \<longleftrightarrow> (ch = Sms \<or> ch = Phone)
       \<and> dailyLimitOf (tcpa rules) ch \<le> int (length (todayCommsOf (wallClock env) ch customerProfile))"
  by (simp add: checkFrequencyLimits_def Let_def dailyFrequencyViolation_def dailyLimitOf_def)

lemma evaluation_daily:
  "list_ex dailyFrequencyViolation (violations (fst (checkComplianceOn env rules customerProfile request)))
   \<longleftrightarrow> (channel request = Sms \<or> channel request = Phone)
       \<and> dailyLimitOf (tcpa rules) (channel request)
           \<le> int (length (todayCommsOf (wallClock env) (channel request) customerProfile))"
  unfolding violations_checkComplianceOn list_ex_append
  using tcpa_daily fdcpa_daily content_daily consent_daily frequency_daily by blast

text \<open>
  C2: on the sms or the phone channel, a profile with exactly \<open>dailyLimit\<close> records of
  that channel timestamped today makes the evaluation report a daily-frequency violation,
  and a profile with exactly \<open>dailyLimit - 1\<close> such records makes it report none: the
  attempt is rejected on reaching the cap.
\<close>

theorem daily_cap_boundary:
  assumes "channel request = Sms \<or> channel request = Phone"
  shows "(int (length (todayCommsOf (wallClock env) (channel request) customerProfile))
            = dailyLimitOf (tcpa rules) (channel request)
          \<longrightarrow> list_ex dailyFrequencyViolation
                (violations (fst (checkComplianceOn env rules customerProfile request))))
       \<and> (int (length (todayCommsOf (wallClock env) (channel request) customerProfile))
            = dailyLimitOf (tcpa rules) (channel request) - 1
          \<longrightarrow> \<not> list_ex dailyFrequencyViolation
                  (violations (fst (checkComplianceOn env rules customerProfile request))))"
  using assms by (simp add: evaluation_daily)

lemma example_today_count:
  "length (todayCommsOf (wallClock exampleClock) ch
     (exampleProfile (map (exampleRecord ch) ts)))
   = length (filter (\<lambda>t. toDateString t = 0) ts)"
  by (induction ts)
     (simp_all add: todayCommsOf_def exampleProfile_def exampleClock_def exampleRecord_def
        toDateString_def)

lemma example_limits:
  "dailyLimitOf (tcpa exampleRules) Phone = 3" "dailyLimitOf (tcpa exampleRules) Sms = 5"
  "dailyLimitOf (tcpa fiveCallRules) Phone = 5"
  by (simp_all add: dailyLimitOf_def exampleRules_def fiveCallRules_def loadComplianceRules_def)

theorem daily_cap_boundary_witness:
  "channel (exampleRequest Phone) = Phone
   \<and> int (length (todayCommsOf (wallClock exampleClock) (channel (exampleRequest Phone))
              (exampleProfile (map (exampleRecord Phone) [36000000, 36000001, 36000002]))))
       = dailyLimitOf (tcpa exampleRules) (channel (exampleRequest Phone))
   \<and> list_ex dailyFrequencyViolation
        (violations (fst (checkComplianceOn exampleClock exampleRules
           (exampleProfile (map (exampleRecord Phone) [36000000, 36000001, 36000002]))
           (exampleRequest Phone))))
   \<and> int (length (todayCommsOf (wallClock exampleClock) (channel (exampleRequest Phone))
              (exampleProfile (map (exampleRecord Phone) [36000000, 36000001]))))
       = dailyLimitOf (tcpa exampleRules) (channel (exampleRequest Phone)) - 1
   \<and> \<not> list_ex dailyFrequencyViolation
        (violations (fst (checkComplianceOn exampleClock exampleRules
           (exampleProfile (map (exampleRecord Phone) [36000000, 36000001]))
           (exampleRequest Phone))))"
proof -
  have c: "channel (exampleRequest Phone) = Phone" by (simp add: exampleRequest_def)
  have n3: "int (length (todayCommsOf (wallClock exampleClock) (channel (exampleRequest Phone))
              (exampleProfile (map (exampleRecord Phone) [36000000, 36000001, 36000002]))))
       = dailyLimitOf (tcpa exampleRules) (channel (exampleRequest Phone))"
    unfolding c example_today_count example_limits by (simp add: toDateString_def)
  have n2: "int (length (todayCommsOf (wallClock exampleClock) (channel (exampleRequest Phone))
              (exampleProfile (map (exampleRecord Phone) [36000000, 36000001]))))
       = dailyLimitOf (tcpa exampleRules) (channel (exampleRequest Phone)) - 1"
    unfolding c example_today_count example_limits by (simp add: toDateString_def)
  from daily_cap_boundary [of "exampleRequest Phone" exampleClock
      "exampleProfile (map (exampleRecord Phone) [36000000, 36000001, 36000002])" exampleRules]
    daily_cap_boundary [of "exampleRequest Phone" exampleClock
      "exampleProfile (map (exampleRecord Phone) [36000000, 36000001])" exampleRules]
    c n3 n2
  show ?thesis by blast
qed

subsection \<open>The approaching-limit warning\<close>

lemma frequency_warning:
  "list_ex frequencyLimitWarning (warnings (checkFrequencyLimits env cid ch customerProfile rules))
   \<longleftrightarrow> ch = Sms
       \<and> 4 * maxDailyTexts (tcpa rules)
           \<le> 5 * int (length (todayCommsOf (wallClock env) ch customerProfile))"
  by (auto simp add: checkFrequencyLimits_def Let_def frequencyLimitWarning_def)

lemma other_checks_no_frequency_warning:
  "\<not> list_ex frequencyLimitWarning (warnings (checkTcpaCompliance env request customerProfile trules))"
  "\<not> list_ex frequencyLimitWarning (warnings (checkFdcpaCompliance env request customerProfile frules))"
  "\<not> list_ex frequencyLimitWarning (warnings (validateContent c s rules))"
  "\<not> list_ex frequencyLimitWarning (warnings (verifyConsent env request customerProfile trules))"
  by (simp_all add: checkTcpaCompliance_def checkFdcpaCompliance_def validateContent_def
      verifyConsent_def Let_def frequencyLimitWarning_def split: option.split)

lemma evaluation_frequency_warning:
  "list_ex frequencyLimitWarning (warnings (fst (checkComplianceOn env rules customerProfile request)))
   \<longleftrightarrow> channel request = Sms
       \<and> 4 * maxDailyTexts (tcpa rules)
           \<le> 5 * int (length (todayCommsOf (wallClock env) (channel request) customerProfile))"
  unfolding warnings_checkComplianceOn list_ex_append
  using frequency_warning other_checks_no_frequency_warning by blast

text \<open>
  C9, as stated, fails for the phone channel: with a cap of five calls a day and four
  phone records today (80% of the cap, under the cap), neither \<open>checkFrequencyLimits\<close>
  nor the whole evaluation gives a frequency-limit warning.
\<close>

theorem phone_warning_counterexample:
  "4 * dailyLimitOf (tcpa fiveCallRules) Phone
     \<le> 5 * int (length (todayCommsOf (wallClock exampleClock) Phone
           (exampleProfile (map (exampleRecord Phone) [36000000, 36000001, 36000002, 36000003]))))
   \<and> int (length (todayCommsOf (wallClock exampleClock) Phone
           (exampleProfile (map (exampleRecord Phone) [36000000, 36000001, 36000002, 36000003]))))
       < dailyLimitOf (tcpa fiveCallRules) Phone
   \<and> \<not> list_ex frequencyLimitWarning
         (warnings (checkFrequencyLimits exampleClock ''CUST-001'' Phone
            (exampleProfile (map (exampleRecord Phone) [36000000, 36000001, 36000002, 36000003]))
            fiveCallRules))
   \<and> channel (exampleRequest Phone) = Phone
   \<and> \<not> list_ex frequencyLimitWarning
         (warnings (fst (checkComplianceOn exampleClock fiveCallRules
            (exampleProfile (map (exampleRecord Phone) [36000000, 36000001, 36000002, 36000003]))
            (exampleRequest Phone))))"
  unfolding example_today_count example_limits
  by (simp add: frequency_warning evaluation_frequency_warning toDateString_def exampleRequest_def)

text \<open>
  C9, amended: the warning is guarded by \<^verbatim>\<open>channel === 'sms'\<close>. On the sms channel, when
  the count of today's sms records reaches 80% of \<open>maxDailyTexts\<close>, the evaluation's
  warning list contains a frequency-limit warning; on the phone and email channels no
  frequency-limit warning is produced.
\<close>

theorem sms_warning_only:
  "(channel request = Sms
      \<and> 4 * maxDailyTexts (tcpa rules)
          \<le> 5 * int (length (todayCommsOf (wallClock env) (channel request) customerProfile))
     \<longrightarrow> list_ex frequencyLimitWarning
           (warnings (fst (checkComplianceOn env rules customerProfile request))))
   \<and> (channel request \<noteq> Sms
     \<longrightarrow> \<not> list_ex frequencyLimitWarning
             (warnings (fst (checkComplianceOn env rules customerProfile request))))"
  by (auto simp add: evaluation_frequency_warning)

theorem sms_warning_only_witness:
  "channel (exampleRequest Sms) = Sms
   \<and> 4 * maxDailyTexts (tcpa exampleRules)
       \<le> 5 * int (length (todayCommsOf (wallClock exampleClock) (channel (exampleRequest Sms))
             (exampleProfile (map (exampleRecord Sms) [36000000, 36000001, 36000002, 36000003]))))
   \<and> list_ex frequencyLimitWarning
        (warnings (fst (checkComplianceOn exampleClock exampleRules
           (exampleProfile (map (exampleRecord Sms) [36000000, 36000001, 36000002, 36000003]))
           (exampleRequest Sms))))
   \<and> channel (exampleRequest Phone) \<noteq> Sms
   \<and> \<not> list_ex frequencyLimitWarning
         (warnings (fst (checkComplianceOn exampleClock exampleRules
            (exampleProfile (map (exampleRecord Sms) [36000000, 36000001, 36000002, 36000003]))
            (exampleRequest Phone))))"
proof -
  have c: "channel (exampleRequest Sms) = Sms" "channel (exampleRequest Phone) \<noteq> Sms"
    by (simp_all add: exampleRequest_def)
  have n: "4 * maxDailyTexts (tcpa exampleRules)
       \<le> 5 * int (length (todayCommsOf (wallClock exampleClock) (channel (exampleRequest Sms))
             (exampleProfile (map (exampleRecord Sms) [36000000, 36000001, 36000002, 36000003]))))"
    unfolding c example_today_count
    by (simp add: toDateString_def exampleRules_def loadComplianceRules_def)
  from sms_warning_only [of "exampleRequest Sms" exampleRules exampleClock
      "exampleProfile (map (exampleRecord Sms) [36000000, 36000001, 36000002, 36000003])"]
    sms_warning_only [of "exampleRequest Phone" exampleRules exampleClock
      "exampleProfile (map (exampleRecord Sms) [36000000, 36000001, 36000002, 36000003])"]
    c n
  show ?thesis by blast
qed

subsection \<open>Consent\<close>

lemma verifyConsent_violation:
  "list_ex consentMissingViolation (violations (verifyConsent env request customerProfile rules))
   \<longleftrightarrow> consentRequired rules
       \<and> (case findConsent (channel request) customerProfile of
            None \<Rightarrow> True
          | Some consent \<Rightarrow> (case expiresAt consent of None \<Rightarrow> False | Some e \<Rightarrow> e < wallClock env))"
  by (simp add: verifyConsent_def Let_def consentMissingViolation_def split: option.split)

text \<open>
  C5: the code looks at the first granted, unrevoked record of the channel only. When
  that record has expired, a later valid record (a renewed consent) is not seen: the
  history holds a valid record, and the evaluation still reports missing consent and
  blocks.
\<close>

theorem renewed_consent_still_blocked:
  "consentRequired (tcpa exampleRules)
   \<and> list_ex (validConsent (wallClock exampleClock) Sms) (consentHistory renewedConsentProfile)
   \<and> list_ex consentMissingViolation
        (violations (verifyConsent exampleClock (exampleRequest Sms) renewedConsentProfile
           (tcpa exampleRules)))
   \<and> \<not> canProceed (fst (checkComplianceOn exampleClock exampleRules renewedConsentProfile
           (exampleRequest Sms)))"
proof -
  have f: "findConsent (channel (exampleRequest Sms)) renewedConsentProfile
           = Some (exampleConsent Sms (Some 0))"
    by (simp add: findConsent_def renewedConsentProfile_def exampleConsent_def exampleRequest_def)
  have r: "consentRequired (tcpa exampleRules)"
    by (simp add: exampleRules_def loadComplianceRules_def)
  have v: "list_ex (validConsent (wallClock exampleClock) Sms) (consentHistory renewedConsentProfile)"
    by (simp add: validConsent_def renewedConsentProfile_def exampleConsent_def)
  have m: "list_ex consentMissingViolation
        (violations (verifyConsent exampleClock (exampleRequest Sms) renewedConsentProfile
           (tcpa exampleRules)))"
    unfolding verifyConsent_violation f using r
    by (simp add: exampleConsent_def exampleClock_def)
  then have "violations (verifyConsent exampleClock (exampleRequest Sms) renewedConsentProfile
           (tcpa exampleRules)) \<noteq> []"
    by auto
  then have "\<not> canProceed (fst (checkComplianceOn exampleClock exampleRules renewedConsentProfile
           (exampleRequest Sms)))"
    by (simp add: checkComplianceOn_def Let_def)
  with r v m show ?thesis by blast
qed

subsection \<open>What an evaluation reads of the clock\<close>

lemma checks_read_wallClock:
  assumes "wallClock env1 = wallClock env2"
  shows "checkTcpaCompliance env1 request customerProfile trules
           = checkTcpaCompliance env2 request customerProfile trules"
    and "checkFdcpaCompliance env1 request customerProfile frules
           = checkFdcpaCompliance env2 request customerProfile frules"
    and "verifyConsent env1 request customerProfile trules
           = verifyConsent env2 request customerProfile trules"
    and "checkFrequencyLimits env1 cid ch customerProfile rules
           = checkFrequencyLimits env2 cid ch customerProfile rules"
    and "getNextAllowedTime env1 cid ch tz customerProfile trules
           = getNextAllowedTime env2 cid ch tz customerProfile trules"
  by (simp_all add: checkTcpaCompliance_def checkFdcpaCompliance_def verifyConsent_def
      checkFrequencyLimits_def getNextAllowedTime_def assms)

text \<open>
  C4, as stated, fails: two runs on the same request, profile and rule set, even at the
  same instant, draw different random tokens for the audit entry's id, so the two
  results differ.
\<close>

theorem audit_id_counterexample:
  "wallClock otherTokenClock = wallClock exampleClock
   \<and> fst (checkComplianceOn exampleClock exampleRules (exampleProfile []) (exampleRequest Email))
       \<noteq> fst (checkComplianceOn otherTokenClock exampleRules (exampleProfile []) (exampleRequest Email))"
proof -
  have "auditId (auditEntry (fst (checkComplianceOn exampleClock exampleRules (exampleProfile [])
          (exampleRequest Email))))
        \<noteq> auditId (auditEntry (fst (checkComplianceOn otherTokenClock exampleRules (exampleProfile [])
          (exampleRequest Email))))"
    by (simp add: checkComplianceOn_def Let_def createAuditEntry_def otherTokenClock_def
        exampleClock_def)
  then show ?thesis by (auto simp add: otherTokenClock_def)
qed

text \<open>
  C4, amended: two runs on the same request, profile and rule set that read the same
  clock instant agree on every field of the result (violations, warnings, compliant,
  canProceed, nextAllowedTime, recommended actions, and the audit entry's timestamp,
  customer, communication, check type, result, violations and warnings) except the audit
  entry's id, which holds the random token, and its processing time.
\<close>

theorem verdict_determined_by_clock:
  assumes "wallClock env1 = wallClock env2"
  shows "fst (checkComplianceOn env1 rules customerProfile request)
         = (fst (checkComplianceOn env2 rules customerProfile request))
             \<lparr>auditEntry :=
                (auditEntry (fst (checkComplianceOn env2 rules customerProfile request)))
                  \<lparr>auditId := [T ''audit_'', N (wallClock env1), T ''_'', T (randomToken env1)],
                   processingTimeMs := auditElapsedMs env1\<rparr>\<rparr>"
  by (simp add: checkComplianceOn_def Let_def createAuditEntry_def
      checks_read_wallClock [OF assms] assms)


theorem verdict_determined_by_clock_witness:
  "wallClock exampleClock = wallClock otherTokenClock
   \<and> fst (checkComplianceOn exampleClock exampleRules (exampleProfile []) (exampleRequest Email))
       = (fst (checkComplianceOn otherTokenClock exampleRules (exampleProfile [])
            (exampleRequest Email)))
           \<lparr>auditEntry :=
              (auditEntry (fst (checkComplianceOn otherTokenClock exampleRules (exampleProfile [])
                 (exampleRequest Email))))
                \<lparr>auditId := [T ''audit_'', N (wallClock exampleClock), T ''_'',
                             T (randomToken exampleClock)],
                 processingTimeMs := auditElapsedMs exampleClock\<rparr>\<rparr>"
proof -
  have w: "wallClock exampleClock = wallClock otherTokenClock"
    by (simp add: otherTokenClock_def)
  from verdict_determined_by_clock [OF w] w show ?thesis by blast
qed

subsection \<open>What the checks read of the history\<close>

lemma length_filter_key:
  "length (filter (\<lambda>c. P (recordKey c)) h) = length (filter P (map recordKey h))"
  by (induction h) simp_all

lemma todayComms_key:
  "length (todayCommsOf now ch (p\<lparr>communicationHistory := h\<rparr>))
   = length (filter (\<lambda>k. toDateString (fst k) = toDateString now \<and> snd k = ch) (map recordKey h))"
  unfolding length_filter_key [symmetric] by (simp add: todayCommsOf_def recordKey_def)

lemma weekComms_key:
  "length (weekCommsOf now ch (p\<lparr>communicationHistory := h\<rparr>))
   = length (filter (\<lambda>k. fst k \<ge> getWeekStart now \<and> snd k = ch) (map recordKey h))"
  unfolding length_filter_key [symmetric] by (simp add: weekCommsOf_def recordKey_def)

lemma allTodayComms_key:
  "length (allTodayCommsOf now (p\<lparr>communicationHistory := h\<rparr>))
   = length (filter (\<lambda>k. toDateString (fst k) = toDateString now) (map recordKey h))"
  unfolding length_filter_key [symmetric] by (simp add: allTodayCommsOf_def recordKey_def)

lemma counts_key:
  assumes "map recordKey h1 = map recordKey h2"
  shows "length (todayCommsOf now ch (p\<lparr>communicationHistory := h1\<rparr>))
         = length (todayCommsOf now ch (p\<lparr>communicationHistory := h2\<rparr>))"
    and "length (weekCommsOf now ch (p\<lparr>communicationHistory := h1\<rparr>))
         = length (weekCommsOf now ch (p\<lparr>communicationHistory := h2\<rparr>))"
    and "length (allTodayCommsOf now (p\<lparr>communicationHistory := h1\<rparr>))
         = length (allTodayCommsOf now (p\<lparr>communicationHistory := h2\<rparr>))"
  unfolding todayComms_key weekComms_key allTodayComms_key assms by (rule refl)+

lemma latest_key:
  "map recordKey xs = map recordKey ys \<Longrightarrow> timestamp a = timestamp b \<Longrightarrow>
   timestamp (foldl (\<lambda>best x. if timestamp x > timestamp best then x else best) a xs)
   = timestamp (foldl (\<lambda>best x. if timestamp x > timestamp best then x else best) b ys)"
proof (induction xs arbitrary: ys a b)
  case Nil
  then show ?case by simp
next
  case (Cons x xs)
  then obtain y ys' where ys: "ys = y # ys'" by (cases ys) auto
  with Cons.prems have k: "recordKey x = recordKey y" "map recordKey xs = map recordKey ys'"
    by simp_all
  from k(1) have t: "timestamp x = timestamp y" by (simp add: recordKey_def)
  have "timestamp (if timestamp x > timestamp a then x else a)
        = timestamp (if timestamp y > timestamp b then y else b)"
    using t Cons.prems(2) by simp
  from Cons.IH [OF k(2) this] show ?case unfolding ys foldl_Cons .
qed

lemma filter_phone_key:
  "map recordKey h1 = map recordKey h2 \<Longrightarrow>
   map recordKey (filter (\<lambda>c. recordChannel c = Phone) h1)
   = map recordKey (filter (\<lambda>c. recordChannel c = Phone) h2)"
proof (induction h1 arbitrary: h2)
  case Nil
  then show ?case by simp
next
  case (Cons x xs)
  then obtain y ys where ys: "h2 = y # ys" by (cases h2) auto
  with Cons.prems have k: "recordKey x = recordKey y" "map recordKey xs = map recordKey ys"
    by simp_all
  from k(1) have "recordChannel x = recordChannel y" by (simp add: recordKey_def)
  with Cons.IH [OF k(2)] k(1) show ?case unfolding ys by simp
qed

lemma lastCall_key:
  assumes "map recordKey h1 = map recordKey h2"
  shows "map_option timestamp (lastCallOf (p\<lparr>communicationHistory := h1\<rparr>))
         = map_option timestamp (lastCallOf (p\<lparr>communicationHistory := h2\<rparr>))"
proof -
  let ?f1 = "filter (\<lambda>c. recordChannel c = Phone) h1"
  let ?f2 = "filter (\<lambda>c. recordChannel c = Phone) h2"
  have k: "map recordKey ?f1 = map recordKey ?f2" by (rule filter_phone_key [OF assms])
  show ?thesis
  proof (cases ?f1)
    case Nil
    with k have "?f2 = []" by simp
    with Nil show ?thesis by (simp add: lastCallOf_def)
  next
    case (Cons a xs)
    with k obtain b ys where c2: "?f2 = b # ys" by (cases ?f2) auto
    from k Cons c2 have "recordKey a = recordKey b" "map recordKey xs = map recordKey ys"
      by simp_all
    then have "timestamp (foldl (\<lambda>best x. if timestamp x > timestamp best then x else best) a xs)
       = timestamp (foldl (\<lambda>best x. if timestamp x > timestamp best then x else best) b ys)"
      by (intro latest_key) (simp_all add: recordKey_def)
    with Cons c2 show ?thesis by (simp add: lastCallOf_def)
  qed
qed

lemma checks_read_keys:
  assumes "map recordKey h1 = map recordKey h2"
  shows "checkTcpaCompliance env request (p\<lparr>communicationHistory := h1\<rparr>) trules
           = checkTcpaCompliance env request (p\<lparr>communicationHistory := h2\<rparr>) trules"
    and "verifyConsent env request (p\<lparr>communicationHistory := h1\<rparr>) trules
           = verifyConsent env request (p\<lparr>communicationHistory := h2\<rparr>) trules"
    and "checkFrequencyLimits env cid ch (p\<lparr>communicationHistory := h1\<rparr>) rules
           = checkFrequencyLimits env cid ch (p\<lparr>communicationHistory := h2\<rparr>) rules"
    and "getNextAllowedTime env cid ch tz (p\<lparr>communicationHistory := h1\<rparr>) trules
           = getNextAllowedTime env cid ch tz (p\<lparr>communicationHistory := h2\<rparr>) trules"
  by (simp_all add: checkTcpaCompliance_def verifyConsent_def checkFrequencyLimits_def
      getNextAllowedTime_def Let_def counts_key [OF assms] findConsent_def)

lemma fdcpa_reads_keys:
  assumes "map recordKey h1 = map recordKey h2"
  shows "checkFdcpaCompliance env request (p\<lparr>communicationHistory := h1\<rparr>) frules
           = checkFdcpaCompliance env request (p\<lparr>communicationHistory := h2\<rparr>) frules"
proof -
  from lastCall_key [OF assms, of p] show ?thesis
    by (cases "lastCallOf (p\<lparr>communicationHistory := h1\<rparr>)";
        cases "lastCallOf (p\<lparr>communicationHistory := h2\<rparr>)")
       (simp_all add: checkFdcpaCompliance_def Let_def counts_key [OF assms])
qed

lemma evaluation_reads_keys:
  assumes "map recordKey h1 = map recordKey h2"
  shows "fst (checkComplianceOn env rules (p\<lparr>communicationHistory := h1\<rparr>) request)
         = fst (checkComplianceOn env rules (p\<lparr>communicationHistory := h2\<rparr>) request)"
  by (simp add: checkComplianceOn_def Let_def checks_read_keys [OF assms]
      fdcpa_reads_keys [OF assms])


text \<open>
  C3, as stated, fails: the frequency filters select by day and channel and never look
  at \<open>compliant\<close>. Two phone records today are under the cap of three; adding the
  record of a blocked attempt (\<open>compliant = False\<close>) makes the next frequency check report
  the daily cap as reached.
\<close>

theorem blocked_record_counts_counterexample:
  "compliant blockedRecord = False
   \<and> \<not> list_ex dailyFrequencyViolation
         (violations (checkFrequencyLimits exampleClock ''CUST-001'' Phone
            (exampleProfile (map (exampleRecord Phone) [36000000, 36000001])) exampleRules))
   \<and> list_ex dailyFrequencyViolation
         (violations (checkFrequencyLimits exampleClock ''CUST-001'' Phone
            (exampleProfile (map (exampleRecord Phone) [36000000, 36000001] @ [blockedRecord]))
            exampleRules))"
  by (simp add: frequency_daily example_limits todayCommsOf_def exampleProfile_def
      exampleRecord_def blockedRecord_def exampleClock_def toDateString_def)

text \<open>
  C3, amended: every evaluation builds a communication record for the profile, with
  \<open>compliant\<close> equal to \<open>canProceed\<close>, and the checks count history records by timestamp
  and channel without reading \<open>compliant\<close>: for every profile, adding a record with
  \<open>compliant = False\<close> gives the same outcome of a subsequent frequency check, and of the
  whole evaluation, as adding the same record with \<open>compliant = True\<close>.
\<close>

theorem compliant_flag_not_read:
  "checkFrequencyLimits env cid ch (p\<lparr>communicationHistory := h @ [r\<lparr>compliant := False\<rparr>]\<rparr>) rules
     = checkFrequencyLimits env cid ch (p\<lparr>communicationHistory := h @ [r\<lparr>compliant := True\<rparr>]\<rparr>) rules
   \<and> fst (checkComplianceOn env rules (p\<lparr>communicationHistory := h @ [r\<lparr>compliant := False\<rparr>]\<rparr>)
          request)
     = fst (checkComplianceOn env rules (p\<lparr>communicationHistory := h @ [r\<lparr>compliant := True\<rparr>]\<rparr>)
          request)
   \<and> compliant (snd (checkComplianceOn env rules p request))
     = canProceed (fst (checkComplianceOn env rules p request))"
proof -
  have k: "map recordKey (h @ [r\<lparr>compliant := False\<rparr>]) = map recordKey (h @ [r\<lparr>compliant := True\<rparr>])"
    by (simp add: recordKey_def)
  have "compliant (snd (checkComplianceOn env rules p request))
     = canProceed (fst (checkComplianceOn env rules p request))"
    by (simp add: checkComplianceOn_def Let_def)
  with checks_read_keys(3) [OF k] evaluation_reads_keys [OF k] show ?thesis by blast
qed

theorem compliant_flag_not_read_witness:
  "checkFrequencyLimits exampleClock ''CUST-001'' Phone
     ((exampleProfile [])\<lparr>communicationHistory :=
        map (exampleRecord Phone) [36000000, 36000001] @ [blockedRecord\<lparr>compliant := False\<rparr>]\<rparr>)
     exampleRules
   = checkFrequencyLimits exampleClock ''CUST-001'' Phone
       ((exampleProfile [])\<lparr>communicationHistory :=
          map (exampleRecord Phone) [36000000, 36000001] @ [blockedRecord\<lparr>compliant := True\<rparr>]\<rparr>)
       exampleRules"
  using compliant_flag_not_read [where env = exampleClock and cid = "''CUST-001''"
      and ch = Phone and p = "exampleProfile []"
      and h = "map (exampleRecord Phone) [36000000, 36000001]" and r = blockedRecord
      and rules = exampleRules]
  by blast

end
